theory Spec2Isabelle
  imports Complex_Main
begin

section \<open>Values shared by both components\<close>

text \<open>
  The two source files are \<^verbatim>\<open>timepicker-base.ts\<close> (class \<^verbatim>\<open>MatTimepickerBase\<close>) and the
  toggle component (class \<^verbatim>\<open>MatTimepickerToggle\<close>). Both are embedded as pure functions
  over a record of the object's fields. A method that can throw returns a sum: \<open>Inl (e, s)\<close>
  is "threw \<open>e\<close>, leaving the object in state \<open>s\<close>", \<open>Inr s\<close> is a normal return.
\<close>

datatype error =
    NoAssociatedInput   \<comment> \<open>\<^verbatim>\<open>Attempted to open an MatTimepicker with no associated input.\<close>\<close>
  | SingleInputOnly     \<comment> \<open>\<^verbatim>\<open>A MatTimepicker can only be associated with a single input.\<close>\<close>
  | TypeError           \<comment> \<open>reading a property of \<^verbatim>\<open>undefined\<close>\<close>

definition error_message :: "error \<Rightarrow> string" where
  "error_message e =
     (case e of
        NoAssociatedInput \<Rightarrow> ''Attempted to open an MatTimepicker with no associated input.''
      | SingleInputOnly \<Rightarrow> ''A MatTimepicker can only be associated with a single input.''
      | TypeError \<Rightarrow> ''Cannot read properties of undefined'')"

text \<open>
  \<^verbatim>\<open>BooleanInput\<close> and \<^verbatim>\<open>coerceBooleanProperty\<close> of the component toolkit:
  \<^verbatim>\<open>value != null && `${value}` !== 'false'\<close>.
\<close>

datatype BooleanInput = BString string | BBoolean bool | BNull | BUndefined

fun coerceBooleanProperty :: "BooleanInput \<Rightarrow> bool" where
  "coerceBooleanProperty BNull = False"
| "coerceBooleanProperty BUndefined = False"
| "coerceBooleanProperty (BBoolean b) = b"
| "coerceBooleanProperty (BString s) = (s \<noteq> ''false'')"

text \<open>
  A field declared \<^verbatim>\<open>boolean\<close> without an initialiser holds \<^verbatim>\<open>undefined\<close> until it is
  assigned; it is a \<open>bool option\<close> here, and \<open>truthy\<close> is its value in a condition.
\<close>

fun truthy :: "bool option \<Rightarrow> bool" where
  "truthy None = False"
| "truthy (Some b) = b"

section \<open>The timepicker base class\<close>

datatype TimepickerOpenAs = Dialog | Popup

datatype TimepickerDropdownPositionX = XStart | XEnd

datatype TimepickerDropdownPositionY = YAbove | YBelow

datatype ThemePalette = Primary | Accent | Warn

text \<open>
  \<^verbatim>\<open>MatTimepickerInput\<close> is declared in another file; the base class calls two of its methods,
  whose results are the fields of this record.
\<close>

record MatTimepickerInput =
  getThemePalette :: "ThemePalette option"
  getConnectedOverlayOrigin :: nat

subsection \<open>The overlay service\<close>

datatype HorizontalEdge = EdgeStart | EdgeEnd

datatype VerticalEdge = EdgeTop | EdgeBottom

record ConnectedPosition =
  originX :: HorizontalEdge
  originY :: VerticalEdge
  overlayX :: HorizontalEdge
  overlayY :: VerticalEdge

record FlexibleConnectedPositionStrategy =
  connectedTo :: nat
  transformOriginOn :: string
  flexibleDimensions :: bool
  viewportMargin :: nat
  lockedPosition :: bool
  positions :: "ConnectedPosition list"

datatype PositionStrategy =
    GlobalCentered
  | FlexibleConnected FlexibleConnectedPositionStrategy

datatype ScrollStrategy = BlockScroll | InjectedScroll

record OverlayConfig =
  positionStrategy :: PositionStrategy
  hasBackdrop :: bool
  backdropClass :: "string list"
  direction :: string
  scrollStrategy :: ScrollStrategy
  panelClass :: string

text \<open>
  The content component rendered inside an overlay, as far as the base class touches it:
  the forwarded colour and whether its exit animation was started. Its back reference to
  the timepicker is left out.
\<close>

record MatTimepickerContent =
  content_color :: "ThemePalette option"
  exitAnimationStarted :: bool

text \<open>
  An overlay created by the overlay service. \<open>content\<close> is the component instance that
  \<^verbatim>\<open>_openOverlay\<close> attaches to it (a component reference is the index of its overlay);
  \<open>hasAttached\<close> tells whether it is still attached; \<open>disposed\<close> is set by \<^verbatim>\<open>dispose()\<close>;
  \<open>positionUpdates\<close> counts the calls of \<^verbatim>\<open>updatePosition()\<close>.
\<close>

record OverlayRef =
  config :: OverlayConfig
  content :: MatTimepickerContent
  hasAttached :: bool
  disposed :: bool
  positionUpdates :: nat

subsection \<open>Events\<close>

record KeyboardEvent =
  keyCode :: nat
  altKey :: bool
  shiftKey :: bool
  ctrlKey :: bool
  metaKey :: bool
  key_defaultPrevented :: bool

record MouseEvent =
  mouse_defaultPrevented :: bool

text \<open>Key codes and \<^verbatim>\<open>hasModifierKey\<close> of the toolkit's keycodes module.\<close>

definition ESCAPE :: nat where "ESCAPE = 27"
definition PAGE_UP :: nat where "PAGE_UP = 33"
definition PAGE_DOWN :: nat where "PAGE_DOWN = 34"
definition LEFT_ARROW :: nat where "LEFT_ARROW = 37"
definition UP_ARROW :: nat where "UP_ARROW = 38"
definition RIGHT_ARROW :: nat where "RIGHT_ARROW = 39"
definition DOWN_ARROW :: nat where "DOWN_ARROW = 40"

datatype ModifierKey = AltKey | ShiftKey | CtrlKey | MetaKey

fun modifier_of :: "KeyboardEvent \<Rightarrow> ModifierKey \<Rightarrow> bool" where
  "modifier_of e AltKey = altKey e"
| "modifier_of e ShiftKey = shiftKey e"
| "modifier_of e CtrlKey = ctrlKey e"
| "modifier_of e MetaKey = metaKey e"

definition hasModifierKey :: "KeyboardEvent \<Rightarrow> ModifierKey list \<Rightarrow> bool" where
  "hasModifierKey e modifiers =
     (if modifiers \<noteq> [] then list_ex (modifier_of e) modifiers
      else altKey e \<or> shiftKey e \<or> ctrlKey e \<or> metaKey e)"

text \<open>What the three source streams of an overlay can emit.\<close>

datatype OverlayEmission =
    BackdropClick MouseEvent
  | Detachment
  | Keydown KeyboardEvent

fun preventDefault :: "OverlayEmission \<Rightarrow> OverlayEmission" where
  "preventDefault (BackdropClick m) = BackdropClick (m\<lparr>mouse_defaultPrevented := True\<rparr>)"
| "preventDefault Detachment = Detachment"
| "preventDefault (Keydown k) = Keydown (k\<lparr>key_defaultPrevented := True\<rparr>)"

subsection \<open>The object's state\<close>

text \<open>
  The fields of \<^verbatim>\<open>MatTimepickerBase\<close> (private fields carry the prefix \<open>priv_\<close>;
  \<open>id_attr\<close> is the field \<^verbatim>\<open>id\<close>, whose value comes from the module's counter), followed by
  what the object owns outside itself: the overlays the injected overlay service created
  for it (an overlay reference is an index into \<open>overlays\<close>), the pending one-shot
  subscriptions to a content component's \<^verbatim>\<open>_animationDone\<close> and to the zone's
  \<^verbatim>\<open>onStable\<close>, and the number of emissions of \<^verbatim>\<open>closedStream\<close>.
\<close>

record MatTimepickerBase =
  priv_disabled :: "bool option"
  priv_opened :: bool
  priv_openAs :: TimepickerOpenAs
  priv_color :: "ThemePalette option"
  xPosition :: TimepickerDropdownPositionX
  yPosition :: TimepickerDropdownPositionY
  closedStream :: nat
  id_attr :: string
  timepickerInput :: "MatTimepickerInput option"
  priv_overlayRef :: "nat option"
  priv_componentRef :: "nat option"
  overlays :: "OverlayRef list"
  animationDone_subs :: "nat list"
  onStable_subs :: "nat list"

definition new_MatTimepickerBase :: "string \<Rightarrow> MatTimepickerBase" where
  "new_MatTimepickerBase uid =
     \<lparr> priv_disabled = None, priv_opened = False, priv_openAs = Popup, priv_color = None,
       xPosition = XStart, yPosition = YBelow, closedStream = 0, id_attr = uid,
       timepickerInput = None, priv_overlayRef = None, priv_componentRef = None,
       overlays = [], animationDone_subs = [], onStable_subs = [] \<rparr>"

definition disabled :: "MatTimepickerBase \<Rightarrow> bool option" where
  "disabled s = priv_disabled s"

definition set_disabled :: "BooleanInput \<Rightarrow> MatTimepickerBase \<Rightarrow> MatTimepickerBase" where
  "set_disabled v s =
     (let newValue = coerceBooleanProperty v
      in if Some newValue \<noteq> priv_disabled s then s\<lparr>priv_disabled := Some newValue\<rparr> else s)"

definition opened :: "MatTimepickerBase \<Rightarrow> bool" where
  "opened s = priv_opened s"

definition openAs :: "MatTimepickerBase \<Rightarrow> TimepickerOpenAs" where
  "openAs s = priv_openAs s"

definition set_openAs :: "TimepickerOpenAs option \<Rightarrow> MatTimepickerBase \<Rightarrow> MatTimepickerBase" where
  "set_openAs v s = s\<lparr>priv_openAs := (case v of Some a \<Rightarrow> a | None \<Rightarrow> Popup)\<rparr>"

definition color :: "MatTimepickerBase \<Rightarrow> ThemePalette option" where
  "color s =
     (case priv_color s of
        Some c \<Rightarrow> Some c
      | None \<Rightarrow> (case timepickerInput s of Some i \<Rightarrow> getThemePalette i | None \<Rightarrow> None))"

definition set_color :: "ThemePalette option \<Rightarrow> MatTimepickerBase \<Rightarrow> MatTimepickerBase" where
  "set_color v s = s\<lparr>priv_color := v\<rparr>"

definition backdropHarnessClass :: "MatTimepickerBase \<Rightarrow> string" where
  "backdropHarnessClass s = id_attr s @ ''-backdrop''"

subsection \<open>Closing\<close>

definition update_overlay :: "nat \<Rightarrow> (OverlayRef \<Rightarrow> OverlayRef) \<Rightarrow> MatTimepickerBase \<Rightarrow> MatTimepickerBase" where
  "update_overlay r f s =
     (if r < length (overlays s) then s\<lparr>overlays := (overlays s)[r := f (overlays s ! r)]\<rparr> else s)"

definition startExitAnimation :: "nat \<Rightarrow> MatTimepickerBase \<Rightarrow> MatTimepickerBase" where
  "startExitAnimation c s =
     update_overlay c
       (\<lambda>ov. ov\<lparr>content := (content ov)\<lparr>exitAnimationStarted := True\<rparr>\<rparr>) s"

text \<open>
  \<^verbatim>\<open>close()\<close> itself: what it writes, and its emission on \<^verbatim>\<open>closedStream\<close> as one more
  on the counter. What the subscribers of the emission do is added in \<open>close_h\<close> below.
\<close>

definition close :: "MatTimepickerBase \<Rightarrow> MatTimepickerBase" where
  "close s =
     (if \<not> priv_opened s then s
      else
        let s1 = (case priv_componentRef s of
                    None \<Rightarrow> s
                  | Some c \<Rightarrow>
                      (startExitAnimation c s)\<lparr>animationDone_subs := animationDone_subs s @ [c]\<rparr>)
        in if priv_opened s1
           then s1\<lparr>priv_opened := False, closedStream := closedStream s1 + 1\<rparr>
           else s1)"

subsection \<open>The close stream and its subscribers\<close>

text \<open>
  An observable derived from the overlay's source streams is a function from a source
  emission to what the derived stream emits for it, \<open>None\<close> when it emits nothing.
  \<^verbatim>\<open>merge\<close> passes backdrop clicks and detachments through and keydown events through the
  filter.
\<close>

definition closeStream_filter :: "MatTimepickerBase \<Rightarrow> KeyboardEvent \<Rightarrow> bool" where
  "closeStream_filter s event =
     ((keyCode event = ESCAPE \<and> \<not> hasModifierKey event []) \<or>
      (timepickerInput s \<noteq> None \<and> hasModifierKey event [AltKey] \<and> keyCode event = UP_ARROW))"

fun getCloseStream :: "MatTimepickerBase \<Rightarrow> OverlayEmission \<Rightarrow> OverlayEmission option" where
  "getCloseStream s (BackdropClick m) = Some (BackdropClick m)"
| "getCloseStream s Detachment = Some Detachment"
| "getCloseStream s (Keydown k) = (if closeStream_filter s k then Some (Keydown k) else None)"

text \<open>
  The subscriber of the close stream: \<^verbatim>\<open>if (event) event.preventDefault(); this.close()\<close>.
  A detachment carries no event object.
\<close>

definition closeStream_subscriber ::
  "OverlayEmission \<Rightarrow> MatTimepickerBase \<Rightarrow> MatTimepickerBase \<times> OverlayEmission" where
  "closeStream_subscriber event s = (close s, preventDefault event)"

text \<open>The second subscriber, on the overlay's keydown events only.\<close>

definition keydown_subscriber :: "OverlayEmission \<Rightarrow> OverlayEmission" where
  "keydown_subscriber em =
     (case em of
        Keydown event \<Rightarrow>
          (if keyCode event = UP_ARROW \<or> keyCode event = DOWN_ARROW \<or>
              keyCode event = LEFT_ARROW \<or> keyCode event = RIGHT_ARROW \<or>
              keyCode event = PAGE_UP \<or> keyCode event = PAGE_DOWN
           then preventDefault em else em)
      | _ \<Rightarrow> em)"

text \<open>
  One emission of an overlay's source streams, delivered to both subscribers in the order
  in which \<^verbatim>\<open>_openOverlay\<close> subscribed them.
\<close>

definition overlay_emits ::
  "OverlayEmission \<Rightarrow> MatTimepickerBase \<Rightarrow> MatTimepickerBase \<times> OverlayEmission" where
  "overlay_emits em s =
     (case getCloseStream s em of
        Some event \<Rightarrow> (let (s', event') = closeStream_subscriber event s
                       in (s', keydown_subscriber event'))
      | None \<Rightarrow> (s, keydown_subscriber em))"

subsection \<open>Destroying the overlay\<close>

text \<open>
  \<^verbatim>\<open>OverlayRef.dispose()\<close> of the overlay service: the overlay is marked disposed, and an
  overlay that had something attached emits once on its detachments stream, which reaches
  the close-stream subscriber (with no event object) before \<^verbatim>\<open>dispose()\<close> returns.
\<close>

definition dispose :: "nat \<Rightarrow> MatTimepickerBase \<Rightarrow> MatTimepickerBase" where
  "dispose r s =
     (if r < length (overlays s) then
        let ov = overlays s ! r;
            isAttached = hasAttached ov;
            s1 = update_overlay r (\<lambda>ov. ov\<lparr>hasAttached := False, disposed := True\<rparr>) s
        in if isAttached then fst (overlay_emits Detachment s1) else s1
      else s)"

definition destroyOverlay :: "MatTimepickerBase \<Rightarrow> MatTimepickerBase" where
  "destroyOverlay s =
     (case priv_overlayRef s of
        Some r \<Rightarrow> (dispose r s)\<lparr>priv_overlayRef := None, priv_componentRef := None\<rparr>
      | None \<Rightarrow> s)"

subsection \<open>Position strategies\<close>

definition getDialogStrategy :: PositionStrategy where
  "getDialogStrategy = GlobalCentered"

definition setConnectedPositions ::
  "MatTimepickerBase \<Rightarrow> FlexibleConnectedPositionStrategy \<Rightarrow> FlexibleConnectedPositionStrategy" where
  "setConnectedPositions s strategy =
     (let primaryX = (if xPosition s = XEnd then EdgeEnd else EdgeStart);
          secondaryX = (if primaryX = EdgeStart then EdgeEnd else EdgeStart);
          primaryY = (if yPosition s = YAbove then EdgeBottom else EdgeTop);
          secondaryY = (if primaryY = EdgeTop then EdgeBottom else EdgeTop)
      in strategy\<lparr>positions :=
           [ \<lparr>originX = primaryX, originY = secondaryY, overlayX = primaryX, overlayY = primaryY\<rparr>,
             \<lparr>originX = primaryX, originY = primaryY, overlayX = primaryX, overlayY = secondaryY\<rparr>,
             \<lparr>originX = secondaryX, originY = secondaryY, overlayX = secondaryX, overlayY = primaryY\<rparr>,
             \<lparr>originX = secondaryX, originY = primaryY, overlayX = secondaryX, overlayY = secondaryY\<rparr> ]\<rparr>)"

text \<open>
  \<^verbatim>\<open>_getDropdownStrategy\<close> reads \<^verbatim>\<open>this.timepickerInput.getConnectedOverlayOrigin()\<close>, which
  throws a \<^verbatim>\<open>TypeError\<close> when no input is registered.
\<close>

definition getDropdownStrategy :: "MatTimepickerBase \<Rightarrow> error + FlexibleConnectedPositionStrategy" where
  "getDropdownStrategy s =
     (case timepickerInput s of
        None \<Rightarrow> Inl TypeError
      | Some i \<Rightarrow>
          Inr (setConnectedPositions s
                 \<lparr> connectedTo = getConnectedOverlayOrigin i,
                   transformOriginOn = ''.mat-timepicker-content'',
                   flexibleDimensions = False,
                   viewportMargin = 8,
                   lockedPosition = True,
                   positions = [] \<rparr>))"

subsection \<open>Opening\<close>

definition openAs_name :: "TimepickerOpenAs \<Rightarrow> string" where
  "openAs_name a = (case a of Dialog \<Rightarrow> ''dialog'' | Popup \<Rightarrow> ''popup'')"

definition overlay_config :: "MatTimepickerBase \<Rightarrow> PositionStrategy \<Rightarrow> OverlayConfig" where
  "overlay_config s strategy =
     (let isDialog = (openAs s = Dialog)
      in \<lparr> positionStrategy = strategy,
           hasBackdrop = True,
           backdropClass =
             [ if isDialog then ''cdk-overlay-dark-backdrop'' else ''mat-overlay-transparent-backdrop'',
               backdropHarnessClass s ],
           direction = ''ltr'',
           scrollStrategy = (if isDialog then BlockScroll else InjectedScroll),
           panelClass = ''mat-timepicker-'' @ openAs_name (openAs s) \<rparr>)"

text \<open>
  \<^verbatim>\<open>_openOverlay\<close>: destroy the current overlay, create a new one (its reference is the next
  index), attach the content component to it and forward the colour, and in dropdown mode
  subscribe once to the zone's \<^verbatim>\<open>onStable\<close>.
\<close>

definition openOverlay :: "MatTimepickerBase \<Rightarrow> (error \<times> MatTimepickerBase) + MatTimepickerBase" where
  "openOverlay s0 =
     (let s = destroyOverlay s0;
          isDialog = (openAs s = Dialog)
      in case (if isDialog then Inr getDialogStrategy
               else map_sum (\<lambda>e. e) FlexibleConnected (getDropdownStrategy s)) of
           Inl e \<Rightarrow> Inl (e, s)
         | Inr strategy \<Rightarrow>
             let r = length (overlays s);
                 instance = \<lparr> content_color = color s, exitAnimationStarted = False \<rparr>;
                 overlayRef = \<lparr> config = overlay_config s strategy, content = instance,
                                hasAttached = True, disposed = False, positionUpdates = 0 \<rparr>
             in Inr (s\<lparr> overlays := overlays s @ [overlayRef],
                        priv_overlayRef := Some r,
                        priv_componentRef := Some r,
                        onStable_subs := (if \<not> isDialog then onStable_subs s @ [r]
                                          else onStable_subs s) \<rparr>))"

definition "open" :: "MatTimepickerBase \<Rightarrow> (error \<times> MatTimepickerBase) + MatTimepickerBase" where
  "open s =
     (if priv_opened s \<or> truthy (disabled s) then Inr s
      else if timepickerInput s = None then Inl (NoAssociatedInput, s)
      else case openOverlay s of
             Inl thrown \<Rightarrow> Inl thrown
           | Inr s' \<Rightarrow> Inr (s'\<lparr>priv_opened := True\<rparr>))"

definition set_opened ::
  "BooleanInput \<Rightarrow> MatTimepickerBase \<Rightarrow> (error \<times> MatTimepickerBase) + MatTimepickerBase" where
  "set_opened v s = (if coerceBooleanProperty v then open s else Inr (close s))"

definition registerInput ::
  "MatTimepickerInput \<Rightarrow> MatTimepickerBase \<Rightarrow> (error \<times> MatTimepickerBase) + MatTimepickerBase" where
  "registerInput input s =
     (if timepickerInput s \<noteq> None then Inl (SingleInputOnly, s)
      else Inr (s\<lparr>timepickerInput := Some input\<rparr>))"

subsection \<open>Lifecycle hooks and deferred callbacks\<close>

definition updatePosition :: "nat \<Rightarrow> MatTimepickerBase \<Rightarrow> MatTimepickerBase" where
  "updatePosition r s = update_overlay r (\<lambda>ov. ov\<lparr>positionUpdates := positionUpdates ov + 1\<rparr>) s"

text \<open>
  \<^verbatim>\<open>SimpleChanges\<close>, as far as \<^verbatim>\<open>ngOnChanges\<close> reads it: for each of the two position inputs,
  whether it changed and, if so, its \<^verbatim>\<open>firstChange\<close> flag.
\<close>

record SimpleChanges =
  change_xPosition :: "bool option"
  change_yPosition :: "bool option"

definition ngOnChanges :: "SimpleChanges \<Rightarrow> MatTimepickerBase \<Rightarrow> MatTimepickerBase" where
  "ngOnChanges changes s =
     (let positionChange = (case change_xPosition changes of
                              Some c \<Rightarrow> Some c
                            | None \<Rightarrow> change_yPosition changes)
      in case positionChange of
           None \<Rightarrow> s
         | Some firstChange \<Rightarrow>
             (case priv_overlayRef s of
                None \<Rightarrow> s
              | Some r \<Rightarrow>
                  if firstChange \<or> \<not> r < length (overlays s) then s
                  else (case positionStrategy (config (overlays s ! r)) of
                          FlexibleConnected strategy \<Rightarrow>
                            let s1 = update_overlay r
                                       (\<lambda>ov. ov\<lparr>config := (config ov)\<lparr>positionStrategy :=
                                           FlexibleConnected (setConnectedPositions s strategy)\<rparr>\<rparr>) s
                            in if opened s1 then updatePosition r s1 else s1
                        | GlobalCentered \<Rightarrow> s)))"

definition ngOnDestroy :: "MatTimepickerBase \<Rightarrow> MatTimepickerBase" where
  "ngOnDestroy s = close (destroyOverlay s)"

text \<open>
  The content component \<open>c\<close> emits on \<^verbatim>\<open>_animationDone\<close>: every pending \<^verbatim>\<open>first()\<close>
  subscription on it is removed and runs its callback, \<^verbatim>\<open>this._destroyOverlay()\<close>.
\<close>

definition animationDone :: "nat \<Rightarrow> MatTimepickerBase \<Rightarrow> MatTimepickerBase" where
  "animationDone c s =
     (let n = length (filter (\<lambda>x. x = c) (animationDone_subs s));
          s1 = s\<lparr>animationDone_subs := filter (\<lambda>x. x \<noteq> c) (animationDone_subs s)\<rparr>
      in (destroyOverlay ^^ n) s1)"

text \<open>
  The zone becomes stable: every pending \<^verbatim>\<open>first()\<close> subscription is removed and runs its
  callback, \<^verbatim>\<open>overlayRef.updatePosition()\<close>.
\<close>

definition onStable :: "MatTimepickerBase \<Rightarrow> MatTimepickerBase" where
  "onStable s = fold updatePosition (onStable_subs s) (s\<lparr>onStable_subs := []\<rparr>)"

subsection \<open>Runs of the object\<close>

text \<open>
  Everything that can happen to a timepicker between two method calls: a call of a public
  method or setter by the application, a lifecycle hook called by the framework, an
  emission of an overlay's streams, and the deferred callbacks. The streams of a disposed
  overlay are completed and emit nothing; an overlay that reports a detachment has been
  detached. A content component may emit on \<^verbatim>\<open>_animationDone\<close> at any time, also after
  its overlay was disposed: the component's class is declared in another file, and no
  result below depends on when it emits. The actions do not nest: a run is an execution
  in which no subscriber of \<^verbatim>\<open>closedStream\<close> calls back into the picker.
\<close>

datatype action =
    Open
  | Close
  | SetOpened BooleanInput
  | SetDisabled BooleanInput
  | SetOpenAs "TimepickerOpenAs option"
  | SetColor "ThemePalette option"
  | SetXPosition TimepickerDropdownPositionX
  | SetYPosition TimepickerDropdownPositionY
  | RegisterInput MatTimepickerInput
  | NgOnChanges SimpleChanges
  | NgOnDestroy
  | OverlayEmits nat OverlayEmission
  | AnimationDone nat
  | ZoneStable

definition deliver :: "nat \<Rightarrow> OverlayEmission \<Rightarrow> MatTimepickerBase \<Rightarrow> MatTimepickerBase" where
  "deliver r em s =
     (if r < length (overlays s) \<and> \<not> disposed (overlays s ! r) then
        let s1 = (if em = Detachment
                  then update_overlay r (\<lambda>ov. ov\<lparr>hasAttached := False\<rparr>) s else s)
        in fst (overlay_emits em s1)
      else s)"

fun exec :: "action \<Rightarrow> MatTimepickerBase \<Rightarrow> (error \<times> MatTimepickerBase) + MatTimepickerBase" where
  "exec Open s = open s"
| "exec Close s = Inr (close s)"
| "exec (SetOpened v) s = set_opened v s"
| "exec (SetDisabled v) s = Inr (set_disabled v s)"
| "exec (SetOpenAs v) s = Inr (set_openAs v s)"
| "exec (SetColor v) s = Inr (set_color v s)"
| "exec (SetXPosition x) s = Inr (s\<lparr>xPosition := x\<rparr>)"
| "exec (SetYPosition y) s = Inr (s\<lparr>yPosition := y\<rparr>)"
| "exec (RegisterInput i) s = registerInput i s"
| "exec (NgOnChanges changes) s = Inr (ngOnChanges changes s)"
| "exec NgOnDestroy s = Inr (ngOnDestroy s)"
| "exec (OverlayEmits r em) s = Inr (deliver r em s)"
| "exec (AnimationDone c) s = Inr (animationDone c s)"
| "exec ZoneStable s = Inr (onStable s)"

text \<open>The object's state after a call, whether it returned or threw.\<close>

fun state_after :: "(error \<times> MatTimepickerBase) + MatTimepickerBase \<Rightarrow> MatTimepickerBase" where
  "state_after (Inl (e, s)) = s"
| "state_after (Inr s) = s"

fun thrown :: "(error \<times> 'a) + 'a \<Rightarrow> error option" where
  "thrown (Inl (e, s)) = Some e"
| "thrown (Inr s) = None"

fun run :: "action list \<Rightarrow> MatTimepickerBase \<Rightarrow> MatTimepickerBase" where
  "run [] s = s"
| "run (a # as) s = run as (state_after (exec a s))"

text \<open>Whether an action is a call of \<^verbatim>\<open>registerInput\<close>.\<close>

fun registers :: "action \<Rightarrow> bool" where
  "registers (RegisterInput i) = True"
| "registers a = False"

text \<open>The overlays of the object that are not disposed, by reference.\<close>

definition live_overlays :: "MatTimepickerBase \<Rightarrow> nat list" where
  "live_overlays s = filter (\<lambda>i. \<not> disposed (overlays s ! i)) [0..<length (overlays s)]"

text \<open>
  The same list computed from the \<open>disposed\<close> flags alone, and the invariant of the
  object: an overlay that is not disposed is the one \<^verbatim>\<open>_overlayRef\<close> refers to.
\<close>

definition live_flags :: "bool list \<Rightarrow> nat list" where
  "live_flags ds = filter (\<lambda>i. \<not> ds ! i) [0..<length ds]"

definition one_overlay :: "MatTimepickerBase \<Rightarrow> bool" where
  "one_overlay s = list_all (\<lambda>i. priv_overlayRef s = Some i) (live_overlays s)"

subsection \<open>A listener on the closed event\<close>

text \<open>
  \<^verbatim>\<open>closedStream.emit()\<close> (the last statement of \<^verbatim>\<open>close()\<close>) calls the subscribers of the
  \<^verbatim>\<open>closed\<close> output before it returns, and a subscriber may call the picker's methods. The
  definitions above count the emission and stop there: they are the methods with a
  subscriber that leaves the picker alone. The definitions here are the same methods with
  the subscriber's effect on the object as the parameter \<open>listener\<close>, run at the point of
  the emission.
\<close>

definition close_h :: "(MatTimepickerBase \<Rightarrow> MatTimepickerBase) \<Rightarrow> MatTimepickerBase \<Rightarrow> MatTimepickerBase" where
  "close_h listener s =
     (if \<not> priv_opened s then s
      else
        let s1 = (case priv_componentRef s of
                    None \<Rightarrow> s
                  | Some c \<Rightarrow>
                      (startExitAnimation c s)\<lparr>animationDone_subs := animationDone_subs s @ [c]\<rparr>)
        in if priv_opened s1
           then listener (s1\<lparr>priv_opened := False, closedStream := closedStream s1 + 1\<rparr>)
           else s1)"

definition closeStream_subscriber_h ::
  "(MatTimepickerBase \<Rightarrow> MatTimepickerBase) \<Rightarrow> OverlayEmission \<Rightarrow> MatTimepickerBase \<Rightarrow>
     MatTimepickerBase \<times> OverlayEmission" where
  "closeStream_subscriber_h listener event s = (close_h listener s, preventDefault event)"

definition overlay_emits_h ::
  "(MatTimepickerBase \<Rightarrow> MatTimepickerBase) \<Rightarrow> OverlayEmission \<Rightarrow> MatTimepickerBase \<Rightarrow>
     MatTimepickerBase \<times> OverlayEmission" where
  "overlay_emits_h listener em s =
     (case getCloseStream s em of
        Some event \<Rightarrow> (let (s', event') = closeStream_subscriber_h listener event s
                       in (s', keydown_subscriber event'))
      | None \<Rightarrow> (s, keydown_subscriber em))"

definition dispose_h :: "(MatTimepickerBase \<Rightarrow> MatTimepickerBase) \<Rightarrow> nat \<Rightarrow> MatTimepickerBase \<Rightarrow> MatTimepickerBase" where
  "dispose_h listener r s =
     (if r < length (overlays s) then
        let ov = overlays s ! r;
            isAttached = hasAttached ov;
            s1 = update_overlay r (\<lambda>ov. ov\<lparr>hasAttached := False, disposed := True\<rparr>) s
        in if isAttached then fst (overlay_emits_h listener Detachment s1) else s1
      else s)"

definition destroyOverlay_h :: "(MatTimepickerBase \<Rightarrow> MatTimepickerBase) \<Rightarrow> MatTimepickerBase \<Rightarrow> MatTimepickerBase" where
  "destroyOverlay_h listener s =
     (case priv_overlayRef s of
        Some r \<Rightarrow> (dispose_h listener r s)\<lparr>priv_overlayRef := None, priv_componentRef := None\<rparr>
      | None \<Rightarrow> s)"

definition ngOnDestroy_h :: "(MatTimepickerBase \<Rightarrow> MatTimepickerBase) \<Rightarrow> MatTimepickerBase \<Rightarrow> MatTimepickerBase" where
  "ngOnDestroy_h listener s = close_h listener (destroyOverlay_h listener s)"

text \<open>
  A listener that calls \<^verbatim>\<open>open()\<close> on the picker, as a template's
  \<^verbatim>\<open>(closed)="picker.open()"\<close> does. At the point of the emission the picker is not opened,
  so no \<^verbatim>\<open>close()\<close> inside this call emits and the listener is not entered again
  (\<open>open_emits_nothing\<close> below); an error thrown by a subscriber does not reach the emitter.
\<close>

definition reopen_listener :: "MatTimepickerBase \<Rightarrow> MatTimepickerBase" where
  "reopen_listener s = state_after (open s)"

section \<open>The toggle component\<close>

text \<open>
  A JavaScript number, as far as the toggle's constructor looks at it: \<^verbatim>\<open>NaN\<close>, an
  infinity (\<open>True\<close> for the negative one) or a finite value. \<open>Finite 0\<close> stands for both
  zeros, which are both falsy and both \<^verbatim>\<open>=== 0\<close>.
\<close>

datatype js_number = NaN | Infinity bool | Finite rat

definition number_truthy :: "js_number \<Rightarrow> bool" where
  "number_truthy n = (n \<noteq> NaN \<and> n \<noteq> Finite 0)"

text \<open>
  What the framework passes for the host attribute: the attribute's string, or \<^verbatim>\<open>null\<close>
  when the host element has no such attribute; \<^verbatim>\<open>undefined\<close> when the class is
  constructed by hand with no argument.
\<close>

datatype attribute_value = AttrString string | AttrNull | AttrUndefined

text \<open>
  \<^verbatim>\<open>Number(v)\<close>: the language's conversion to a number. \<^verbatim>\<open>undefined\<close> becomes \<^verbatim>\<open>NaN\<close> and
  \<^verbatim>\<open>null\<close> becomes 0; the conversion of a string (its numeric-literal grammar and the
  rounding to a double) is the parameter \<open>StringToNumber\<close>.
\<close>

definition Number :: "(string \<Rightarrow> js_number) \<Rightarrow> attribute_value \<Rightarrow> js_number" where
  "Number StringToNumber v =
     (case v of
        AttrUndefined \<Rightarrow> NaN
      | AttrNull \<Rightarrow> Finite 0
      | AttrString str \<Rightarrow> StringToNumber str)"

text \<open>
  \<open>timepicker\<close> is the picker the toggle is bound to (\<^verbatim>\<open>MatTimepicker\<close>, a subclass of the
  base class declared in another file; the toggle uses its \<^verbatim>\<open>disabled\<close> and \<^verbatim>\<open>open()\<close>).
\<close>

record MatTimepickerToggle =
  timepicker :: "MatTimepickerBase option"
  toggle_priv_disabled :: "bool option"
  disableRipple :: "bool option"
  tabIndex :: "js_number option"

definition new_MatTimepickerToggle ::
  "(string \<Rightarrow> js_number) \<Rightarrow> attribute_value \<Rightarrow> MatTimepickerToggle" where
  "new_MatTimepickerToggle StringToNumber defaultTabIndex =
     (let parsedTabIndex = Number StringToNumber defaultTabIndex
      in \<lparr> timepicker = None, toggle_priv_disabled = None, disableRipple = None,
           tabIndex = (if number_truthy parsedTabIndex \<or> parsedTabIndex = Finite 0
                       then Some parsedTabIndex else None) \<rparr>)"

definition toggle_disabled :: "MatTimepickerToggle \<Rightarrow> bool option" where
  "toggle_disabled t =
     (case timepicker t of
        Some p \<Rightarrow> (if toggle_priv_disabled t = None then disabled p
                   else Some (truthy (toggle_priv_disabled t)))
      | None \<Rightarrow> Some (truthy (toggle_priv_disabled t)))"

definition set_toggle_disabled :: "BooleanInput \<Rightarrow> MatTimepickerToggle \<Rightarrow> MatTimepickerToggle" where
  "set_toggle_disabled v t = t\<lparr>toggle_priv_disabled := Some (coerceBooleanProperty v)\<rparr>"

record ClickEvent =
  propagationStopped :: bool

text \<open>
  The click handler. When \<^verbatim>\<open>timepicker.open()\<close> throws, the error leaves the handler before
  \<^verbatim>\<open>event.stopPropagation()\<close> is reached.
\<close>

definition toggle_open ::
  "ClickEvent \<Rightarrow> MatTimepickerToggle \<Rightarrow>
     (error \<times> MatTimepickerToggle \<times> ClickEvent) + (MatTimepickerToggle \<times> ClickEvent)" where
  "toggle_open event t =
     (case timepicker t of
        None \<Rightarrow> Inr (t, event)
      | Some p \<Rightarrow>
          if \<not> truthy (toggle_disabled t) then
            (case open p of
               Inl (e, p') \<Rightarrow> Inl (e, t\<lparr>timepicker := Some p'\<rparr>, event)
             | Inr p' \<Rightarrow> Inr (t\<lparr>timepicker := Some p'\<rparr>, event\<lparr>propagationStopped := True\<rparr>))
          else Inr (t, event))"

section \<open>Example objects and events\<close>

definition example_input :: MatTimepickerInput where
  "example_input = \<lparr> getThemePalette = None, getConnectedOverlayOrigin = 0 \<rparr>"

definition fresh_picker :: MatTimepickerBase where
  "fresh_picker = new_MatTimepickerBase ''mat-timepicker-0''"

definition opened_picker :: MatTimepickerBase where
  "opened_picker = run [RegisterInput example_input, Open] fresh_picker"


definition disabled_picker :: MatTimepickerBase where
  "disabled_picker = run [SetDisabled (BBoolean True)] fresh_picker"

definition end_above_picker :: MatTimepickerBase where
  "end_above_picker =
     run [SetXPosition XEnd, SetYPosition YAbove, RegisterInput example_input] fresh_picker"

definition registered_picker :: MatTimepickerBase where
  "registered_picker = run [RegisterInput example_input] fresh_picker"

definition alt_up_key :: KeyboardEvent where
  "alt_up_key = \<lparr> keyCode = 38, altKey = True, shiftKey = False, ctrlKey = False,
                  metaKey = False, key_defaultPrevented = False \<rparr>"

definition escape_key :: KeyboardEvent where
  "escape_key = \<lparr> keyCode = 27, altKey = False, shiftKey = False, ctrlKey = False,
                  metaKey = False, key_defaultPrevented = False \<rparr>"

definition shift_tab_key :: KeyboardEvent where
  "shift_tab_key = \<lparr> keyCode = 9, altKey = False, shiftKey = True, ctrlKey = False,
                     metaKey = False, key_defaultPrevented = False \<rparr>"

text \<open>
  An instance of the string conversion for evaluating examples: a non-empty string of
  decimal digits converts to its value, and a string with any other character to \<^verbatim>\<open>NaN\<close>
  (as the language's conversion does for \<^verbatim>\<open>'0'\<close>, \<^verbatim>\<open>'5'\<close> and \<^verbatim>\<open>'abc'\<close>).
\<close>

definition decimal_StringToNumber :: "string \<Rightarrow> js_number" where
  "decimal_StringToNumber str =
     (if str \<noteq> [] \<and> list_all (\<lambda>c. 48 \<le> (of_char c :: nat) \<and> (of_char c :: nat) \<le> 57) str
      then Finite (of_nat (foldl (\<lambda>n c. 10 * n + (of_char c - 48)) 0 str))
      else NaN)"

definition bound_toggle :: "MatTimepickerBase \<Rightarrow> MatTimepickerToggle" where
  "bound_toggle p = (new_MatTimepickerToggle decimal_StringToNumber AttrNull)\<lparr>timepicker := Some p\<rparr>"

definition click :: ClickEvent where
  "click = \<lparr> propagationStopped = False \<rparr>"

section \<open>The fallback order in the words of the specification\<close>

text \<open>
  The preferred position has the overlay's x edge on the side of \<^verbatim>\<open>xPosition\<close> and the
  overlay's y edge \<^verbatim>\<open>bottom\<close> for \<^verbatim>\<open>above\<close>, \<^verbatim>\<open>top\<close> for \<^verbatim>\<open>below\<close>; the origin's x edge is
  the overlay's, the origin's y edge is the opposite of the overlay's. The fallbacks flip
  the y pairing, then take the opposite x, then both.
\<close>

definition preferred_x :: "TimepickerDropdownPositionX \<Rightarrow> HorizontalEdge" where
  "preferred_x x = (case x of XStart \<Rightarrow> EdgeStart | XEnd \<Rightarrow> EdgeEnd)"

definition opposite_x :: "HorizontalEdge \<Rightarrow> HorizontalEdge" where
  "opposite_x e = (case e of EdgeStart \<Rightarrow> EdgeEnd | EdgeEnd \<Rightarrow> EdgeStart)"

definition opposite_y :: "VerticalEdge \<Rightarrow> VerticalEdge" where
  "opposite_y e = (case e of EdgeTop \<Rightarrow> EdgeBottom | EdgeBottom \<Rightarrow> EdgeTop)"

definition preferred_overlay_y :: "TimepickerDropdownPositionY \<Rightarrow> VerticalEdge" where
  "preferred_overlay_y y = (case y of YAbove \<Rightarrow> EdgeBottom | YBelow \<Rightarrow> EdgeTop)"

definition position_at :: "HorizontalEdge \<Rightarrow> VerticalEdge \<Rightarrow> ConnectedPosition" where
  "position_at x oy = \<lparr> originX = x, originY = opposite_y oy, overlayX = x, overlayY = oy \<rparr>"

definition spec_fallback_positions ::
  "TimepickerDropdownPositionX \<Rightarrow> TimepickerDropdownPositionY \<Rightarrow> ConnectedPosition list" where
  "spec_fallback_positions x y =
     [ position_at (preferred_x x) (preferred_overlay_y y),
       position_at (preferred_x x) (opposite_y (preferred_overlay_y y)),
       position_at (opposite_x (preferred_x x)) (preferred_overlay_y y),
       position_at (opposite_x (preferred_x x)) (opposite_y (preferred_overlay_y y)) ]"

section \<open>What each operation leaves unchanged\<close>

text \<open>
  Facts used by several of the results below: which fields an operation can change, and
  how it changes the \<open>disposed\<close> flags of the overlays.
\<close>

lemma update_overlay_fields [simp]:
  "priv_disabled (update_overlay r f s) = priv_disabled s"
  "priv_opened (update_overlay r f s) = priv_opened s"
  "priv_openAs (update_overlay r f s) = priv_openAs s"
  "closedStream (update_overlay r f s) = closedStream s"
  "timepickerInput (update_overlay r f s) = timepickerInput s"
  "priv_overlayRef (update_overlay r f s) = priv_overlayRef s"
  "priv_componentRef (update_overlay r f s) = priv_componentRef s"
  "animationDone_subs (update_overlay r f s) = animationDone_subs s"
  "length (overlays (update_overlay r f s)) = length (overlays s)"
  by (simp_all add: update_overlay_def)

lemma update_overlay_disposed:
  assumes "\<And>ov. disposed (f ov) = disposed ov"
  shows "map disposed (overlays (update_overlay r f s)) = map disposed (overlays s)"
  using assms by (simp add: update_overlay_def map_update list_update_same_conv)

lemma update_overlay_set_disposed:
  assumes "\<And>ov. disposed (f ov) = True"
  shows "map disposed (overlays (update_overlay r f s)) = (map disposed (overlays s))[r := True]"
  using assms by (simp add: update_overlay_def map_update list_update_beyond)

lemma close_not_opened: "\<not> priv_opened s \<Longrightarrow> close s = s"
  by (simp add: close_def)

lemma close_fields [simp]:
  "priv_opened (close s) = False"
  "timepickerInput (close s) = timepickerInput s"
  "priv_overlayRef (close s) = priv_overlayRef s"
  "priv_componentRef (close s) = priv_componentRef s"
  "priv_disabled (close s) = priv_disabled s"
  "length (overlays (close s)) = length (overlays s)"
  by (simp_all add: close_def startExitAnimation_def Let_def split: option.splits)

lemma close_closedStream:
  "closedStream (close s) = (if priv_opened s then closedStream s + 1 else closedStream s)"
  by (simp add: close_def startExitAnimation_def Let_def split: option.splits)

lemma close_disposed [simp]:
  "map disposed (overlays (close s)) = map disposed (overlays s)"
  by (simp add: close_def startExitAnimation_def Let_def update_overlay_disposed split: option.splits)

lemma overlay_emits_state:
  "fst (overlay_emits em s) = (if getCloseStream s em = None then s else close s)"
  by (auto simp: overlay_emits_def closeStream_subscriber_def split: option.splits)

lemma dispose_fields [simp]:
  "timepickerInput (dispose r s) = timepickerInput s"
  "priv_overlayRef (dispose r s) = priv_overlayRef s"
  "priv_disabled (dispose r s) = priv_disabled s"
  "length (overlays (dispose r s)) = length (overlays s)"
  by (simp_all add: dispose_def Let_def overlay_emits_state)

lemma dispose_opened: "priv_opened (dispose r s) \<Longrightarrow> priv_opened s"
  by (simp add: dispose_def Let_def overlay_emits_state split: if_splits)

lemma dispose_disposed:
  "map disposed (overlays (dispose r s)) = (map disposed (overlays s))[r := True]"
  by (simp add: dispose_def Let_def overlay_emits_state update_overlay_set_disposed list_update_beyond)

lemma destroyOverlay_fields [simp]:
  "timepickerInput (destroyOverlay s) = timepickerInput s"
  "priv_disabled (destroyOverlay s) = priv_disabled s"
  "priv_overlayRef (destroyOverlay s) = None"
  "length (overlays (destroyOverlay s)) = length (overlays s)"
  by (simp_all add: destroyOverlay_def split: option.splits)

lemma destroyOverlay_opened: "priv_opened (destroyOverlay s) \<Longrightarrow> priv_opened s"
  by (auto simp: destroyOverlay_def split: option.splits dest: dispose_opened)

lemma destroyOverlay_disposed:
  "map disposed (overlays (destroyOverlay s)) =
     (case priv_overlayRef s of
        None \<Rightarrow> map disposed (overlays s)
      | Some r \<Rightarrow> (map disposed (overlays s))[r := True])"
  by (simp add: destroyOverlay_def dispose_disposed split: option.splits)

lemma destroyOverlay_funpow_input [simp]:
  "timepickerInput ((destroyOverlay ^^ n) s) = timepickerInput s"
  by (induction n) simp_all

lemma destroyOverlay_funpow_opened:
  "priv_opened ((destroyOverlay ^^ n) s) \<Longrightarrow> priv_opened s"
  by (induction n) (auto dest: destroyOverlay_opened)

lemma updatePosition_fields [simp]:
  "priv_opened (updatePosition r s) = priv_opened s"
  "timepickerInput (updatePosition r s) = timepickerInput s"
  "priv_overlayRef (updatePosition r s) = priv_overlayRef s"
  "length (overlays (updatePosition r s)) = length (overlays s)"
  by (simp_all add: updatePosition_def)

lemma updatePosition_disposed [simp]:
  "map disposed (overlays (updatePosition r s)) = map disposed (overlays s)"
  by (simp add: updatePosition_def update_overlay_disposed)

lemma fold_updatePosition_fields [simp]:
  "priv_opened (fold updatePosition rs s) = priv_opened s"
  "timepickerInput (fold updatePosition rs s) = timepickerInput s"
  "priv_overlayRef (fold updatePosition rs s) = priv_overlayRef s"
  "map disposed (overlays (fold updatePosition rs s)) = map disposed (overlays s)"
  by (induction rs arbitrary: s) simp_all

lemma onStable_fields [simp]:
  "priv_opened (onStable s) = priv_opened s"
  "timepickerInput (onStable s) = timepickerInput s"
  "priv_overlayRef (onStable s) = priv_overlayRef s"
  "map disposed (overlays (onStable s)) = map disposed (overlays s)"
  by (simp_all add: onStable_def)

lemma ngOnChanges_fields [simp]:
  "priv_opened (ngOnChanges ch s) = priv_opened s"
  "timepickerInput (ngOnChanges ch s) = timepickerInput s"
  "priv_overlayRef (ngOnChanges ch s) = priv_overlayRef s"
  by (simp_all add: ngOnChanges_def Let_def split: option.splits PositionStrategy.splits)

lemma ngOnChanges_disposed [simp]:
  "map disposed (overlays (ngOnChanges ch s)) = map disposed (overlays s)"
  by (simp add: ngOnChanges_def Let_def update_overlay_disposed
      split: option.splits PositionStrategy.splits)

lemma animationDone_fields [simp]:
  "timepickerInput (animationDone c s) = timepickerInput s"
  by (simp add: animationDone_def Let_def)

lemma animationDone_opened: "priv_opened (animationDone c s) \<Longrightarrow> priv_opened s"
  by (auto simp: animationDone_def Let_def dest: destroyOverlay_funpow_opened)

lemma deliver_fields [simp]:
  "timepickerInput (deliver r em s) = timepickerInput s"
  "priv_overlayRef (deliver r em s) = priv_overlayRef s"
  by (simp_all add: deliver_def Let_def overlay_emits_state)

lemma deliver_opened: "priv_opened (deliver r em s) \<Longrightarrow> priv_opened s"
  by (simp add: deliver_def Let_def overlay_emits_state split: if_splits)

lemma deliver_disposed [simp]:
  "map disposed (overlays (deliver r em s)) = map disposed (overlays s)"
  by (simp add: deliver_def Let_def overlay_emits_state update_overlay_disposed)

subsection \<open>The example objects\<close>

lemma fresh_picker_fields:
  "\<not> priv_opened fresh_picker"
  "priv_disabled fresh_picker = None"
  "timepickerInput fresh_picker = None"
  "closedStream fresh_picker = 0"
  "overlays fresh_picker = []"
  "priv_overlayRef fresh_picker = None"
  by (simp_all add: fresh_picker_def new_MatTimepickerBase_def)

lemma opened_picker_fields:
  "priv_opened opened_picker"
  "closedStream opened_picker = 0"
  "timepickerInput opened_picker = Some example_input"
  "length (overlays opened_picker) = 1"
  "priv_overlayRef opened_picker = Some 0"
  by (simp_all add: opened_picker_def fresh_picker_def new_MatTimepickerBase_def registerInput_def
      open_def disabled_def openOverlay_def destroyOverlay_def Let_def openAs_def
      getDropdownStrategy_def)

subsection \<open>Opening, and the registered input along a run\<close>

lemma openOverlay_Inl: "openOverlay s = Inl (e, s') \<Longrightarrow> s' = destroyOverlay s"
  by (auto simp: openOverlay_def Let_def split: if_splits sum.splits)

lemma openOverlay_Inr:
  assumes "openOverlay s = Inr s'"
  shows "\<exists>ov. overlays s' = overlays (destroyOverlay s) @ [ov] \<and> \<not> disposed ov"
    and "priv_overlayRef s' = Some (length (overlays s))"
    and "timepickerInput s' = timepickerInput s"
    and "priv_opened s' = priv_opened (destroyOverlay s)"
    and "priv_disabled s' = priv_disabled s"
  using assms by (auto simp: openOverlay_def Let_def split: if_splits sum.splits)

lemma openOverlay_returns:
  "timepickerInput s \<noteq> None \<Longrightarrow> \<exists>s'. openOverlay s = Inr s'"
  by (auto simp: openOverlay_def Let_def getDropdownStrategy_def getDialogStrategy_def)

lemma openOverlay_input [simp]:
  "timepickerInput (state_after (openOverlay s)) = timepickerInput s"
proof (cases "openOverlay s")
  case (Inl a)
  then show ?thesis using openOverlay_Inl [of s "fst a" "snd a"] by (cases a) simp
next
  case (Inr b)
  then show ?thesis using openOverlay_Inr(3) [of s b] by simp
qed

lemma open_input [simp]:
  "timepickerInput (state_after (open s)) = timepickerInput s"
proof -
  have "timepickerInput (state_after (case openOverlay s of Inl t \<Rightarrow> Inl t
          | Inr s' \<Rightarrow> Inr (s'\<lparr>priv_opened := True\<rparr>))) = timepickerInput (state_after (openOverlay s))"
    by (cases "openOverlay s") auto
  then show ?thesis by (simp add: open_def)
qed

lemma open_no_input:
  "timepickerInput s = None \<Longrightarrow> \<not> priv_opened s \<Longrightarrow>
     open s = (if truthy (disabled s) then Inr s else Inl (NoAssociatedInput, s))"
  by (simp add: open_def)

lemma exec_input:
  "timepickerInput (state_after (exec a s)) =
     (case a of
        RegisterInput i \<Rightarrow> (if timepickerInput s = None then Some i else timepickerInput s)
      | _ \<Rightarrow> timepickerInput s)"
  by (cases a)
     (simp_all add: set_opened_def set_disabled_def set_openAs_def set_color_def
        registerInput_def ngOnDestroy_def Let_def)

lemma run_input_Some:
  "timepickerInput s = Some i \<Longrightarrow> timepickerInput (run acts s) = Some i"
proof (induction acts arbitrary: s)
  case Nil
  then show ?case by simp
next
  case (Cons a acts)
  have "timepickerInput (state_after (exec a s)) = Some i"
    using Cons.prems by (simp add: exec_input split: action.splits)
  then show ?case using Cons.IH by simp
qed

lemma exec_closed_without_input:
  assumes "timepickerInput s = None" and "\<not> priv_opened s" and "\<not> registers a"
  shows "timepickerInput (state_after (exec a s)) = None \<and> \<not> priv_opened (state_after (exec a s))"
proof -
  have i: "timepickerInput (state_after (exec a s)) = None"
    using assms(1,3) unfolding exec_input by (cases a) simp_all
  have o: "\<not> priv_opened (state_after (exec a s))"
    using assms
    by (cases a)
       (auto simp: open_no_input set_opened_def set_disabled_def set_openAs_def set_color_def
          ngOnDestroy_def Let_def
          dest: animationDone_opened deliver_opened)
  from i o show ?thesis by simp
qed

lemma run_closed_without_input:
  "timepickerInput s = None \<Longrightarrow> \<not> priv_opened s \<Longrightarrow> list_all (\<lambda>a. \<not> registers a) acts \<Longrightarrow>
     timepickerInput (run acts s) = None \<and> \<not> priv_opened (run acts s)"
proof (induction acts arbitrary: s)
  case Nil
  then show ?case by simp
next
  case (Cons a acts)
  then show ?case using exec_closed_without_input [of s a] by simp
qed

lemma disabled_picker_fields:
  "priv_disabled disabled_picker = Some True"
  "timepickerInput disabled_picker = None"
  "\<not> priv_opened disabled_picker"
  by (simp_all add: disabled_picker_def set_disabled_def fresh_picker_fields)

lemma bound_toggle_fields:
  "timepicker (bound_toggle p) = Some p"
  "toggle_priv_disabled (bound_toggle p) = None"
  by (simp_all add: bound_toggle_def new_MatTimepickerToggle_def Let_def)

lemma registered_picker_fields:
  "\<not> priv_opened registered_picker"
  "priv_disabled registered_picker = None"
  "timepickerInput registered_picker = Some example_input"
  by (simp_all add: registered_picker_def registerInput_def fresh_picker_fields)

lemma end_above_picker_fields:
  "xPosition end_above_picker = XEnd"
  "yPosition end_above_picker = YAbove"
  "timepickerInput end_above_picker = Some example_input"
  by (simp_all add: end_above_picker_def registerInput_def fresh_picker_fields)

subsection \<open>At most one overlay that is not disposed\<close>

lemma live_overlays_flags: "live_overlays s = live_flags (map disposed (overlays s))"
  unfolding live_overlays_def live_flags_def
  by (rule filter_cong) simp_all

lemma live_flags_dispose: "live_flags (ds[r := True]) = filter (\<lambda>i. i \<noteq> r) (live_flags ds)"
proof -
  have "(\<not> ds[r := True] ! i) = (\<not> ds ! i \<and> i \<noteq> r)" if "i < length ds" for i
    using that by (cases "i = r") simp_all
  then have "filter (\<lambda>i. \<not> ds[r := True] ! i) [0..<length ds] =
             filter (\<lambda>i. \<not> ds ! i \<and> i \<noteq> r) [0..<length ds]"
    by (intro filter_cong) simp_all
  then show ?thesis
    by (simp add: live_flags_def conj_commute)
qed

lemma live_flags_append: "live_flags (ds @ [d]) = live_flags ds @ (if d then [] else [length ds])"
proof -
  have "filter (\<lambda>i. \<not> (ds @ [d]) ! i) [0..<length ds] = filter (\<lambda>i. \<not> ds ! i) [0..<length ds]"
    by (rule filter_cong) (simp_all add: nth_append)
  then show ?thesis
    by (simp add: live_flags_def)
qed

lemma distinct_live_flags: "distinct (live_flags ds)"
  by (simp add: live_flags_def)

lemma one_overlay_cong:
  "map disposed (overlays s') = map disposed (overlays s) \<Longrightarrow>
   priv_overlayRef s' = priv_overlayRef s \<Longrightarrow> one_overlay s' = one_overlay s"
  by (simp add: one_overlay_def live_overlays_flags)

lemma one_overlay_destroyOverlay:
  assumes "one_overlay s"
  shows "live_overlays (destroyOverlay s) = []"
proof (cases "priv_overlayRef s")
  case None
  then have "live_overlays s = []"
    using assms by (cases "live_overlays s") (simp_all add: one_overlay_def)
  then show ?thesis
    using None by (simp add: live_overlays_flags destroyOverlay_disposed)
next
  case (Some r)
  have "\<forall>i \<in> set (live_flags (map disposed (overlays s))). i = r"
    using assms Some by (simp add: one_overlay_def live_overlays_flags list_all_iff)
  then have "filter (\<lambda>i. i \<noteq> r) (live_flags (map disposed (overlays s))) = []"
    by (simp add: filter_empty_conv)
  then show ?thesis
    using Some by (simp add: live_overlays_flags destroyOverlay_disposed live_flags_dispose)
qed

lemma one_overlay_destroyOverlay_inv: "one_overlay s \<Longrightarrow> one_overlay (destroyOverlay s)"
  using one_overlay_destroyOverlay [of s] by (simp add: one_overlay_def)

lemma one_overlay_funpow: "one_overlay s \<Longrightarrow> one_overlay ((destroyOverlay ^^ n) s)"
  by (induction n) (simp_all add: one_overlay_destroyOverlay_inv)

lemma openOverlay_live:
  assumes "one_overlay s" and "openOverlay s = Inr s'"
  shows "live_overlays s' = [length (overlays s)]"
proof -
  obtain ov where ov: "overlays s' = overlays (destroyOverlay s) @ [ov]" "\<not> disposed ov"
    using openOverlay_Inr(1) [OF assms(2)] by blast
  have "live_overlays s' = live_flags (map disposed (overlays (destroyOverlay s))) @ [length (overlays s)]"
    using ov by (simp add: live_overlays_flags live_flags_append)
  then show ?thesis
    using one_overlay_destroyOverlay [OF assms(1)] by (simp add: live_overlays_flags)
qed

lemma one_overlay_openOverlay: "one_overlay s \<Longrightarrow> one_overlay (state_after (openOverlay s))"
proof (cases "openOverlay s")
  case (Inl a)
  assume "one_overlay s"
  then show ?thesis
    using Inl openOverlay_Inl [of s "fst a" "snd a"] one_overlay_destroyOverlay_inv [of s]
    by (cases a) simp
next
  case (Inr s')
  assume "one_overlay s"
  then show ?thesis
    using Inr openOverlay_live [of s s'] openOverlay_Inr(2) [of s s']
    by (simp add: one_overlay_def)
qed

lemma one_overlay_open: "one_overlay s \<Longrightarrow> one_overlay (state_after (open s))"
proof -
  assume a: "one_overlay s"
  have "one_overlay (state_after (case openOverlay s of Inl t \<Rightarrow> Inl t
          | Inr s' \<Rightarrow> Inr (s'\<lparr>priv_opened := True\<rparr>)))"
    using one_overlay_openOverlay [OF a]
    by (cases "openOverlay s") (auto simp: one_overlay_def live_overlays_def)
  then show ?thesis using a by (simp add: open_def)
qed

lemma one_overlay_close: "one_overlay (close s) = one_overlay s"
  by (rule one_overlay_cong) simp_all

lemma one_overlay_exec: "one_overlay s \<Longrightarrow> one_overlay (state_after (exec a s))"
proof (cases a)
  case Open
  assume "one_overlay s"
  then show ?thesis using Open by (simp add: one_overlay_open)
next
  case (SetOpened v)
  assume "one_overlay s"
  then show ?thesis using SetOpened by (simp add: set_opened_def one_overlay_open one_overlay_close)
next
  case (AnimationDone c)
  assume "one_overlay s"
  then have "one_overlay (s\<lparr>animationDone_subs := filter (\<lambda>x. x \<noteq> c) (animationDone_subs s)\<rparr>)"
    by (simp add: one_overlay_def live_overlays_def)
  then show ?thesis using AnimationDone by (simp add: animationDone_def Let_def one_overlay_funpow)
next
  case NgOnDestroy
  assume "one_overlay s"
  then show ?thesis using NgOnDestroy
    by (simp add: ngOnDestroy_def one_overlay_close one_overlay_destroyOverlay_inv)
next
  case Close
  assume "one_overlay s"
  then show ?thesis using Close by (simp add: one_overlay_close)
next
  case (NgOnChanges ch)
  assume "one_overlay s"
  then show ?thesis using NgOnChanges one_overlay_cong [of "ngOnChanges ch s" s] by simp
next
  case (OverlayEmits r em)
  assume "one_overlay s"
  then show ?thesis using OverlayEmits one_overlay_cong [of "deliver r em s" s] by simp
next
  case ZoneStable
  assume "one_overlay s"
  then show ?thesis using ZoneStable one_overlay_cong [of "onStable s" s] by simp
qed (simp_all add: one_overlay_def live_overlays_def set_disabled_def set_openAs_def set_color_def
      registerInput_def Let_def)

lemma one_overlay_run: "one_overlay s \<Longrightarrow> one_overlay (run acts s)"
  by (induction acts arbitrary: s) (simp_all add: one_overlay_exec)

lemma one_overlay_new: "one_overlay (new_MatTimepickerBase uid)"
  by (simp add: one_overlay_def live_overlays_def new_MatTimepickerBase_def)

lemma one_overlay_length: "one_overlay s \<Longrightarrow> length (live_overlays s) \<le> 1"
proof -
  assume a: "one_overlay s"
  have d: "distinct (live_overlays s)"
    by (simp add: live_overlays_flags distinct_live_flags)
  show ?thesis
  proof (cases "live_overlays s")
    case Nil
    then show ?thesis by simp
  next
    case (Cons x xs)
    then show ?thesis using a d by (cases xs) (auto simp: one_overlay_def)
  qed
qed


text \<open>
  So in a run, where no subscriber of \<^verbatim>\<open>closedStream\<close> calls back into the picker, at most
  one overlay is not disposed at any time.
\<close>

lemma one_overlay_without_listener:
  assumes "s = run acts (new_MatTimepickerBase uid)"
  shows "length (live_overlays s) \<le> 1 \<and>
         list_all (\<lambda>i. priv_overlayRef s = Some i) (live_overlays s) \<and>
         live_overlays (destroyOverlay s) = [] \<and>
         (\<forall>s'. openOverlay s = Inr s' \<longrightarrow>
            length (overlays s') = length (overlays s) + 1 \<and>
            live_overlays s' = [length (overlays s)] \<and>
            priv_overlayRef s' = Some (length (overlays s))) \<and>
         length (live_overlays (state_after (open s))) \<le> 1 \<and>
         (opened s \<longrightarrow> overlays (state_after (open s)) = overlays s)"
proof -
  have i: "one_overlay s"
    using assms by (simp add: one_overlay_run one_overlay_new)
  have a: "length (live_overlays s) \<le> 1"
    using i by (rule one_overlay_length)
  have b: "list_all (\<lambda>i. priv_overlayRef s = Some i) (live_overlays s)"
    using i by (simp add: one_overlay_def)
  have c: "live_overlays (destroyOverlay s) = []"
    using i by (rule one_overlay_destroyOverlay)
  have d: "\<forall>s'. openOverlay s = Inr s' \<longrightarrow>
            length (overlays s') = length (overlays s) + 1 \<and>
            live_overlays s' = [length (overlays s)] \<and>
            priv_overlayRef s' = Some (length (overlays s))"
  proof (intro allI impI)
    fix s' assume o: "openOverlay s = Inr s'"
    obtain ov where "overlays s' = overlays (destroyOverlay s) @ [ov]"
      using openOverlay_Inr(1) [OF o] by blast
    then have "length (overlays s') = length (overlays s) + 1"
      by simp
    then show "length (overlays s') = length (overlays s) + 1 \<and>
            live_overlays s' = [length (overlays s)] \<and>
            priv_overlayRef s' = Some (length (overlays s))"
      using openOverlay_live [OF i o] openOverlay_Inr(2) [OF o] by simp
  qed
  have e: "length (live_overlays (state_after (open s))) \<le> 1"
    using one_overlay_open [OF i] by (rule one_overlay_length)
  have f: "opened s \<longrightarrow> overlays (state_after (open s)) = overlays s"
    by (simp add: open_def opened_def)
  from a b c d e f show ?thesis by simp
qed

subsection \<open>With a listener on the closed event\<close>

text \<open>With a listener that does nothing, the methods are the ones of the runs.\<close>

lemma close_h_no_listener: "close_h (\<lambda>s. s) = close"
  by (rule ext) (simp add: close_h_def close_def Let_def)

lemma overlay_emits_h_no_listener: "overlay_emits_h (\<lambda>s. s) = overlay_emits"
  unfolding overlay_emits_h_def overlay_emits_def closeStream_subscriber_h_def
    closeStream_subscriber_def close_h_no_listener
  by (rule refl)

lemma dispose_h_no_listener: "dispose_h (\<lambda>s. s) = dispose"
  unfolding dispose_h_def dispose_def overlay_emits_h_no_listener
  by (rule refl)

lemma destroyOverlay_h_no_listener: "destroyOverlay_h (\<lambda>s. s) = destroyOverlay"
  unfolding destroyOverlay_h_def destroyOverlay_def dispose_h_no_listener
  by (rule refl)

lemma ngOnDestroy_h_no_listener: "ngOnDestroy_h (\<lambda>s. s) = ngOnDestroy"
  unfolding ngOnDestroy_h_def ngOnDestroy_def close_h_no_listener destroyOverlay_h_no_listener
  by (rule refl)

text \<open>\<^verbatim>\<open>open()\<close> never emits the closed event, whatever the state.\<close>

lemma dispose_closedStream: "\<not> priv_opened s \<Longrightarrow> closedStream (dispose r s) = closedStream s"
  by (simp add: dispose_def Let_def overlay_emits_state close_not_opened)

lemma destroyOverlay_closedStream:
  "\<not> priv_opened s \<Longrightarrow> closedStream (destroyOverlay s) = closedStream s"
  by (simp add: destroyOverlay_def dispose_closedStream split: option.splits)

lemma openOverlay_closedStream:
  "\<not> priv_opened s \<Longrightarrow> closedStream (state_after (openOverlay s)) = closedStream s"
  by (auto simp: openOverlay_def Let_def destroyOverlay_closedStream split: sum.splits)

lemma open_emits_nothing: "closedStream (state_after (open s)) = closedStream s"
proof (cases "priv_opened s")
  case True
  then show ?thesis by (simp add: open_def)
next
  case False
  have "closedStream (state_after (case openOverlay s of Inl t \<Rightarrow> Inl t
          | Inr s' \<Rightarrow> Inr (s'\<lparr>priv_opened := True\<rparr>))) = closedStream (state_after (openOverlay s))"
    by (cases "openOverlay s") auto
  then show ?thesis
    using False by (simp add: open_def openOverlay_closedStream)
qed

lemma destroyed_with_listener_fields:
  "map disposed (overlays (destroyOverlay_h reopen_listener opened_picker)) = [True, False]"
  "priv_overlayRef (destroyOverlay_h reopen_listener opened_picker) = None"
  "priv_opened (destroyOverlay_h reopen_listener opened_picker)"
  by (simp_all add: destroyOverlay_h_def dispose_h_def overlay_emits_h_def closeStream_subscriber_h_def
      close_h_def reopen_listener_def opened_picker_def fresh_picker_def new_MatTimepickerBase_def
      registerInput_def open_def disabled_def openOverlay_def destroyOverlay_def dispose_def
      update_overlay_def overlay_emits_state close_def startExitAnimation_def Let_def openAs_def
      getDropdownStrategy_def example_input_def)

lemma ngOnDestroy_with_listener_fields:
  "map disposed (overlays (ngOnDestroy_h reopen_listener opened_picker)) = [True, False, False]"
  "priv_overlayRef (ngOnDestroy_h reopen_listener opened_picker) = Some 2"
  by (simp_all add: ngOnDestroy_h_def destroyOverlay_h_def dispose_h_def overlay_emits_h_def
      closeStream_subscriber_h_def close_h_def reopen_listener_def opened_picker_def fresh_picker_def new_MatTimepickerBase_def
      registerInput_def open_def disabled_def openOverlay_def destroyOverlay_def dispose_def
      update_overlay_def overlay_emits_state close_def startExitAnimation_def Let_def openAs_def
      getDropdownStrategy_def example_input_def)

section \<open>Results\<close>

text \<open>
  C8. \<^verbatim>\<open>close()\<close> is idempotent on the opened flag and on the closed event: on a picker
  that is not opened it changes nothing and emits nothing; on an opened picker it clears
  the flag and emits \<^verbatim>\<open>closedStream\<close> exactly once; a second \<^verbatim>\<open>close()\<close> right after changes
  nothing and emits nothing.
\<close>

theorem close_idempotent:
  "(\<not> opened s \<longrightarrow> close s = s \<and> closedStream (close s) = closedStream s) \<and>
   (opened s \<longrightarrow> \<not> opened (close s) \<and> closedStream (close s) = closedStream s + 1) \<and>
   close (close s) = close s \<and>
   closedStream (close (close s)) = closedStream (close s)"
proof -
  have a: "\<not> opened s \<longrightarrow> close s = s \<and> closedStream (close s) = closedStream s"
    by (simp add: opened_def close_not_opened)
  have b: "opened s \<longrightarrow> \<not> opened (close s) \<and> closedStream (close s) = closedStream s + 1"
    by (simp add: opened_def close_closedStream)
  have "\<not> priv_opened (close s)"
    by simp
  then have c: "close (close s) = close s"
    by (rule close_not_opened)
  from a b c show ?thesis by simp
qed

theorem close_idempotent_witness:
  "opened opened_picker \<and> \<not> opened (close opened_picker) \<and>
   closedStream opened_picker = 0 \<and>
   closedStream (close opened_picker) = 1 \<and>
   closedStream (close (close opened_picker)) = 1 \<and>
   \<not> opened fresh_picker \<and> close fresh_picker = fresh_picker"
proof -
  have o: "opened opened_picker"
    by (simp add: opened_def opened_picker_fields)
  have n: "\<not> opened fresh_picker"
    by (simp add: opened_def fresh_picker_fields)
  show ?thesis
    using close_idempotent [of opened_picker] close_idempotent [of fresh_picker] o n
    by (simp add: opened_picker_fields)
qed

text \<open>
  C7. On a picker that is already opened or is disabled, \<^verbatim>\<open>open()\<close> is a no-op: it returns
  without throwing, also when no input is associated, and the whole state, the overlays
  included, is what it was.
\<close>

theorem open_noop:
  "opened s \<or> truthy (disabled s) \<Longrightarrow>
     open s = Inr s \<and> thrown (open s) = None \<and> state_after (open s) = s \<and>
     overlays (state_after (open s)) = overlays s \<and>
     opened (state_after (open s)) = opened s \<and>
     timepickerInput (state_after (open s)) = timepickerInput s"
  by (simp add: open_def opened_def)

theorem open_noop_witness:
  "opened opened_picker \<and> open opened_picker = Inr opened_picker \<and>
   truthy (disabled (set_disabled (BBoolean True) fresh_picker)) \<and>
   timepickerInput (set_disabled (BBoolean True) fresh_picker) = None \<and>
   open (set_disabled (BBoolean True) fresh_picker) = Inr (set_disabled (BBoolean True) fresh_picker)"
proof -
  have o: "opened opened_picker"
    by (simp add: opened_def opened_picker_fields)
  have d: "truthy (disabled (set_disabled (BBoolean True) fresh_picker))"
    by (simp add: disabled_def set_disabled_def fresh_picker_fields)
  have i: "timepickerInput (set_disabled (BBoolean True) fresh_picker) = None"
    by (simp add: set_disabled_def fresh_picker_fields)
  show ?thesis
    using open_noop [of opened_picker] open_noop [of "set_disabled (BBoolean True) fresh_picker"] o d i
    by simp
qed

text \<open>
  C1, as amended. On a timepicker for which \<^verbatim>\<open>registerInput\<close> was never called there is no
  associated input and the picker is not opened. If it is not disabled, \<^verbatim>\<open>open()\<close> throws
  the error "Attempted to open an MatTimepicker with no associated input." and leaves the
  state as it was; if it is disabled, \<^verbatim>\<open>open()\<close> returns without throwing. Either way the
  picker does not become opened.
\<close>

theorem open_without_input:
  assumes "list_all (\<lambda>a. \<not> registers a) acts"
    and "s = run acts (new_MatTimepickerBase uid)"
  shows "timepickerInput s = None \<and> \<not> opened s \<and>
         (\<not> truthy (disabled s) \<longrightarrow> open s = Inl (NoAssociatedInput, s)) \<and>
         (truthy (disabled s) \<longrightarrow> open s = Inr s) \<and>
         \<not> opened (state_after (open s)) \<and>
         error_message NoAssociatedInput =
           ''Attempted to open an MatTimepicker with no associated input.''"
proof -
  have "timepickerInput s = None \<and> \<not> priv_opened s"
    using assms run_closed_without_input [of "new_MatTimepickerBase uid" acts]
    by (simp add: new_MatTimepickerBase_def)
  then show ?thesis
    by (simp add: open_no_input opened_def error_message_def)
qed

theorem open_without_input_witness:
  "list_all (\<lambda>a. \<not> registers a) [Close, SetOpenAs (Some Dialog)] \<and>
   open (run [Close, SetOpenAs (Some Dialog)] (new_MatTimepickerBase ''mat-timepicker-0'')) =
     Inl (NoAssociatedInput,
          run [Close, SetOpenAs (Some Dialog)] (new_MatTimepickerBase ''mat-timepicker-0'')) \<and>
   list_all (\<lambda>a. \<not> registers a) [SetDisabled (BBoolean True)] \<and>
   open (run [SetDisabled (BBoolean True)] (new_MatTimepickerBase ''mat-timepicker-0'')) =
     Inr (run [SetDisabled (BBoolean True)] (new_MatTimepickerBase ''mat-timepicker-0''))"
proof -
  have h: "list_all (\<lambda>a. \<not> registers a) [Close, SetOpenAs (Some Dialog)]"
    by simp
  have d: "\<not> truthy (disabled (run [Close, SetOpenAs (Some Dialog)]
              (new_MatTimepickerBase ''mat-timepicker-0'')))"
    by (simp add: disabled_def set_openAs_def close_def new_MatTimepickerBase_def)
  have h': "list_all (\<lambda>a. \<not> registers a) [SetDisabled (BBoolean True)]"
    by simp
  have d': "truthy (disabled (run [SetDisabled (BBoolean True)]
              (new_MatTimepickerBase ''mat-timepicker-0'')))"
    by (simp add: disabled_def set_disabled_def new_MatTimepickerBase_def)
  have "open (run [Close, SetOpenAs (Some Dialog)] (new_MatTimepickerBase ''mat-timepicker-0'')) =
     Inl (NoAssociatedInput,
          run [Close, SetOpenAs (Some Dialog)] (new_MatTimepickerBase ''mat-timepicker-0''))"
    using open_without_input [OF h refl, of "''mat-timepicker-0''"] d by blast
  moreover
  have "open (run [SetDisabled (BBoolean True)] (new_MatTimepickerBase ''mat-timepicker-0'')) =
     Inr (run [SetDisabled (BBoolean True)] (new_MatTimepickerBase ''mat-timepicker-0''))"
    using open_without_input [OF h' refl, of "''mat-timepicker-0''"] d' by blast
  ultimately show ?thesis
    using h h' by blast
qed

text \<open>
  The claim as stated fails on a disabled picker with no input: \<^verbatim>\<open>open()\<close> returns without
  throwing.
\<close>

theorem open_without_input_counterexample:
  "timepickerInput disabled_picker = None \<and> thrown (open disabled_picker) = None"
  by (simp add: open_def disabled_def disabled_picker_fields)

text \<open>
  C2. On a timepicker with no registered input, \<^verbatim>\<open>registerInput(input)\<close> stores the input.
  From then on, whatever else happens to the picker, every call of \<^verbatim>\<open>registerInput\<close>
  throws "A MatTimepicker can only be associated with a single input." and the input first
  registered stays.
\<close>

theorem registerInput_single:
  assumes "timepickerInput s = None"
  shows "registerInput i s = Inr (s\<lparr>timepickerInput := Some i\<rparr>) \<and>
         timepickerInput (state_after (registerInput i s)) = Some i \<and>
         registerInput j (run acts (state_after (registerInput i s))) =
           Inl (SingleInputOnly, run acts (state_after (registerInput i s))) \<and>
         timepickerInput (run acts (state_after (registerInput i s))) = Some i \<and>
         error_message SingleInputOnly =
           ''A MatTimepicker can only be associated with a single input.''"
proof -
  have a: "registerInput i s = Inr (s\<lparr>timepickerInput := Some i\<rparr>)"
    using assms by (simp add: registerInput_def)
  have b: "timepickerInput (run acts (state_after (registerInput i s))) = Some i"
    using a by (simp add: run_input_Some)
  have c: "registerInput j (run acts (state_after (registerInput i s))) =
           Inl (SingleInputOnly, run acts (state_after (registerInput i s)))"
    using b by (simp add: registerInput_def)
  from a b c show ?thesis by (simp add: error_message_def)
qed

theorem registerInput_single_witness:
  "timepickerInput fresh_picker = None \<and>
   registerInput example_input fresh_picker =
     Inr (fresh_picker\<lparr>timepickerInput := Some example_input\<rparr>) \<and>
   timepickerInput (state_after (registerInput example_input fresh_picker)) = Some example_input \<and>
   registerInput \<lparr>getThemePalette = Some Warn, getConnectedOverlayOrigin = 7\<rparr>
       (run [Open, Close] (state_after (registerInput example_input fresh_picker))) =
     Inl (SingleInputOnly, run [Open, Close] (state_after (registerInput example_input fresh_picker))) \<and>
   timepickerInput (run [Open, Close] (state_after (registerInput example_input fresh_picker))) =
     Some example_input \<and>
   error_message SingleInputOnly =
     ''A MatTimepicker can only be associated with a single input.''"
proof -
  have h: "timepickerInput fresh_picker = None"
    by (simp add: fresh_picker_fields)
  show ?thesis
    by (rule conjI [OF h registerInput_single [OF h]])
qed

text \<open>
  C3. The close stream emits for a backdrop click, for a detachment, for a keydown of
  Escape with no modifier key, and for a keydown of Up Arrow with Alt when an input is
  associated, and for nothing else. What it emits is the source event, and its subscriber
  calls \<^verbatim>\<open>close()\<close>; an emission the stream drops leaves the picker as it was. So Escape
  without modifiers on an opened picker closes it and emits the closed event once.
\<close>

theorem close_stream_emissions:
  "(getCloseStream s em \<noteq> None \<longleftrightarrow>
      (case em of
         BackdropClick m \<Rightarrow> True
       | Detachment \<Rightarrow> True
       | Keydown k \<Rightarrow>
           (keyCode k = ESCAPE \<and> \<not> altKey k \<and> \<not> shiftKey k \<and> \<not> ctrlKey k \<and> \<not> metaKey k) \<or>
           (keyCode k = UP_ARROW \<and> altKey k \<and> timepickerInput s \<noteq> None))) \<and>
   (getCloseStream s em \<noteq> None \<longrightarrow>
      getCloseStream s em = Some em \<and> fst (overlay_emits em s) = close s) \<and>
   (getCloseStream s em = None \<longrightarrow> fst (overlay_emits em s) = s) \<and>
   (opened s \<and> keyCode k = ESCAPE \<and> \<not> altKey k \<and> \<not> shiftKey k \<and> \<not> ctrlKey k \<and> \<not> metaKey k \<longrightarrow>
      \<not> opened (fst (overlay_emits (Keydown k) s)) \<and>
      closedStream (fst (overlay_emits (Keydown k) s)) = closedStream s + 1)"
proof -
  have a: "getCloseStream s em \<noteq> None \<longleftrightarrow>
      (case em of
         BackdropClick m \<Rightarrow> True
       | Detachment \<Rightarrow> True
       | Keydown k \<Rightarrow>
           (keyCode k = ESCAPE \<and> \<not> altKey k \<and> \<not> shiftKey k \<and> \<not> ctrlKey k \<and> \<not> metaKey k) \<or>
           (keyCode k = UP_ARROW \<and> altKey k \<and> timepickerInput s \<noteq> None))"
    by (cases em) (auto simp: closeStream_filter_def hasModifierKey_def)
  have b: "getCloseStream s em \<noteq> None \<longrightarrow>
      getCloseStream s em = Some em \<and> fst (overlay_emits em s) = close s"
    by (cases em) (auto simp: overlay_emits_state)
  have c: "getCloseStream s em = None \<longrightarrow> fst (overlay_emits em s) = s"
    by (simp add: overlay_emits_state)
  have d: "opened s \<and> keyCode k = ESCAPE \<and> \<not> altKey k \<and> \<not> shiftKey k \<and> \<not> ctrlKey k \<and> \<not> metaKey k \<longrightarrow>
      \<not> opened (fst (overlay_emits (Keydown k) s)) \<and>
      closedStream (fst (overlay_emits (Keydown k) s)) = closedStream s + 1"
    by (simp add: overlay_emits_state closeStream_filter_def hasModifierKey_def opened_def
        close_closedStream)
  from a b c d show ?thesis by simp
qed

theorem close_stream_emissions_witness:
  "opened opened_picker \<and>
   getCloseStream opened_picker (Keydown escape_key) = Some (Keydown escape_key) \<and>
   \<not> opened (fst (overlay_emits (Keydown escape_key) opened_picker)) \<and>
   closedStream (fst (overlay_emits (Keydown escape_key) opened_picker)) = 1 \<and>
   getCloseStream opened_picker (Keydown shift_tab_key) = None \<and>
   fst (overlay_emits (Keydown shift_tab_key) opened_picker) = opened_picker"
proof -
  have o: "opened opened_picker"
    by (simp add: opened_def opened_picker_fields)
  have k: "keyCode escape_key = ESCAPE \<and> \<not> altKey escape_key \<and> \<not> shiftKey escape_key \<and>
    \<not> ctrlKey escape_key \<and> \<not> metaKey escape_key"
    by (simp add: escape_key_def ESCAPE_def)
  have t: "keyCode shift_tab_key \<noteq> ESCAPE \<and> keyCode shift_tab_key \<noteq> UP_ARROW"
    by (simp add: shift_tab_key_def ESCAPE_def UP_ARROW_def)
  note e = close_stream_emissions [of opened_picker "Keydown escape_key" escape_key]
  note s = close_stream_emissions [of opened_picker "Keydown shift_tab_key" escape_key]
  have e1: "getCloseStream opened_picker (Keydown escape_key) \<noteq> None"
    using e k by simp
  have e2: "getCloseStream opened_picker (Keydown escape_key) = Some (Keydown escape_key)"
    using e e1 by blast
  have e3: "\<not> opened (fst (overlay_emits (Keydown escape_key) opened_picker)) \<and>
      closedStream (fst (overlay_emits (Keydown escape_key) opened_picker)) = closedStream opened_picker + 1"
    using e o k by blast
  have s1: "getCloseStream opened_picker (Keydown shift_tab_key) = None"
    using s t by simp
  have s2: "fst (overlay_emits (Keydown shift_tab_key) opened_picker) = opened_picker"
    using s s1 by blast
  from o e2 e3 s1 s2 show ?thesis
    by (simp add: opened_picker_fields)
qed

text \<open>
  C4. For every \<^verbatim>\<open>xPosition\<close> and \<^verbatim>\<open>yPosition\<close>, \<^verbatim>\<open>_setConnectedPositions\<close> gives the strategy
  exactly the four positions of the specification's fallback order, each with the
  origin's x edge equal to the overlay's, and the dropdown strategy built for a picker
  with an input carries these positions.
\<close>

theorem dropdown_fallback_positions:
  "positions (setConnectedPositions s strategy) = spec_fallback_positions (xPosition s) (yPosition s) \<and>
   length (positions (setConnectedPositions s strategy)) = 4 \<and>
   list_all (\<lambda>p. originX p = overlayX p) (positions (setConnectedPositions s strategy)) \<and>
   (timepickerInput s \<noteq> None \<longrightarrow>
      (\<exists>st. getDropdownStrategy s = Inr st \<and>
            positions st = spec_fallback_positions (xPosition s) (yPosition s)))"
proof -
  have a: "positions (setConnectedPositions s st) = spec_fallback_positions (xPosition s) (yPosition s)"
    for st
    by (cases "xPosition s"; cases "yPosition s")
       (simp_all add: setConnectedPositions_def spec_fallback_positions_def position_at_def
          preferred_x_def opposite_x_def opposite_y_def preferred_overlay_y_def)
  have b: "length (spec_fallback_positions x y) = 4" for x y
    by (simp add: spec_fallback_positions_def)
  have c: "list_all (\<lambda>p. originX p = overlayX p) (spec_fallback_positions x y)" for x y
    by (simp add: spec_fallback_positions_def position_at_def)
  have d: "timepickerInput s \<noteq> None \<longrightarrow>
      (\<exists>st. getDropdownStrategy s = Inr st \<and>
            positions st = spec_fallback_positions (xPosition s) (yPosition s))"
    by (auto simp: getDropdownStrategy_def a)
  from a b c d show ?thesis by simp
qed

theorem dropdown_fallback_positions_witness:
  "timepickerInput end_above_picker \<noteq> None \<and>
   (\<exists>st. getDropdownStrategy end_above_picker = Inr st \<and>
      positions st =
        [ \<lparr>originX = EdgeEnd, originY = EdgeTop, overlayX = EdgeEnd, overlayY = EdgeBottom\<rparr>,
          \<lparr>originX = EdgeEnd, originY = EdgeBottom, overlayX = EdgeEnd, overlayY = EdgeTop\<rparr>,
          \<lparr>originX = EdgeStart, originY = EdgeTop, overlayX = EdgeStart, overlayY = EdgeBottom\<rparr>,
          \<lparr>originX = EdgeStart, originY = EdgeBottom, overlayX = EdgeStart, overlayY = EdgeTop\<rparr> ])"
proof -
  have h: "timepickerInput end_above_picker \<noteq> None"
    by (simp add: end_above_picker_fields)
  have e: "spec_fallback_positions XEnd YAbove =
        [ \<lparr>originX = EdgeEnd, originY = EdgeTop, overlayX = EdgeEnd, overlayY = EdgeBottom\<rparr>,
          \<lparr>originX = EdgeEnd, originY = EdgeBottom, overlayX = EdgeEnd, overlayY = EdgeTop\<rparr>,
          \<lparr>originX = EdgeStart, originY = EdgeTop, overlayX = EdgeStart, overlayY = EdgeBottom\<rparr>,
          \<lparr>originX = EdgeStart, originY = EdgeBottom, overlayX = EdgeStart, overlayY = EdgeTop\<rparr> ]"
    by (simp add: spec_fallback_positions_def position_at_def preferred_x_def opposite_x_def
        opposite_y_def preferred_overlay_y_def)
  show ?thesis
    using dropdown_fallback_positions [of end_above_picker undefined] h e
    by (simp add: end_above_picker_fields)
qed

text \<open>
  C5, as amended. On a click, a toggle with a timepicker assigned that is not disabled
  calls \<^verbatim>\<open>timepicker.open()\<close>; when that call returns, the toggle stops the event's
  propagation, and when it throws, the error leaves the handler and propagation is not
  stopped. A toggle that is disabled or has no timepicker does nothing. The toggle's
  \<^verbatim>\<open>disabled\<close> is the timepicker's when it was not set on the toggle, and the value set
  otherwise.
\<close>

theorem toggle_click:
  "(timepicker t = Some p \<and> \<not> truthy (toggle_disabled t) \<longrightarrow>
      (\<forall>p'. open p = Inr p' \<longrightarrow>
         toggle_open event t = Inr (t\<lparr>timepicker := Some p'\<rparr>, event\<lparr>propagationStopped := True\<rparr>)) \<and>
      (\<forall>e p'. open p = Inl (e, p') \<longrightarrow>
         toggle_open event t = Inl (e, t\<lparr>timepicker := Some p'\<rparr>, event))) \<and>
   (timepicker t = None \<or> truthy (toggle_disabled t) \<longrightarrow> toggle_open event t = Inr (t, event)) \<and>
   (timepicker t = Some p \<and> toggle_priv_disabled t = None \<longrightarrow> toggle_disabled t = disabled p) \<and>
   (toggle_priv_disabled t = Some b \<longrightarrow> toggle_disabled t = Some b)"
  by (auto simp: toggle_open_def toggle_disabled_def split: option.splits)

theorem toggle_click_witness:
  "timepicker (bound_toggle registered_picker) = Some registered_picker \<and>
   \<not> truthy (toggle_disabled (bound_toggle registered_picker)) \<and>
   (\<exists>p'. open registered_picker = Inr p' \<and> opened p' \<and>
      toggle_open click (bound_toggle registered_picker) =
        Inr ((bound_toggle registered_picker)\<lparr>timepicker := Some p'\<rparr>,
             click\<lparr>propagationStopped := True\<rparr>)) \<and>
   truthy (toggle_disabled (bound_toggle disabled_picker)) \<and>
   toggle_open click (bound_toggle disabled_picker) = (Inr (bound_toggle disabled_picker, click))"
proof -
  have a: "timepicker (bound_toggle registered_picker) = Some registered_picker"
    by (simp add: bound_toggle_fields)
  have b: "\<not> truthy (toggle_disabled (bound_toggle registered_picker))"
    by (simp add: bound_toggle_fields toggle_disabled_def disabled_def registered_picker_fields)
  obtain p' where p: "openOverlay registered_picker = Inr p'"
    using openOverlay_returns [of registered_picker] by (auto simp: registered_picker_fields)
  have c: "open registered_picker = Inr (p'\<lparr>priv_opened := True\<rparr>)"
    using p by (simp add: open_def disabled_def registered_picker_fields)
  have d: "truthy (toggle_disabled (bound_toggle disabled_picker))"
    by (simp add: bound_toggle_fields toggle_disabled_def disabled_def disabled_picker_fields)
  have "toggle_open click (bound_toggle registered_picker) =
        Inr ((bound_toggle registered_picker)\<lparr>timepicker := Some (p'\<lparr>priv_opened := True\<rparr>)\<rparr>,
             click\<lparr>propagationStopped := True\<rparr>)"
    using toggle_click [of "bound_toggle registered_picker" registered_picker click] a b c
    by simp
  moreover have "toggle_open click (bound_toggle disabled_picker) = (Inr (bound_toggle disabled_picker, click))"
    using toggle_click [of "bound_toggle disabled_picker" disabled_picker click] d
    by simp
  ultimately show ?thesis
    using a b c d by (simp add: opened_def)
qed

text \<open>
  The claim as stated fails for a toggle bound to a picker with no input: the click calls
  \<^verbatim>\<open>open()\<close>, which throws, and propagation is not stopped.
\<close>

theorem toggle_click_counterexample:
  "timepicker (bound_toggle fresh_picker) = Some fresh_picker \<and>
   \<not> truthy (toggle_disabled (bound_toggle fresh_picker)) \<and>
   toggle_open click (bound_toggle fresh_picker) =
     Inl (NoAssociatedInput, bound_toggle fresh_picker, click) \<and>
   \<not> propagationStopped click"
  by (simp add: bound_toggle_def new_MatTimepickerToggle_def toggle_disabled_def toggle_open_def
      disabled_def open_def fresh_picker_fields click_def Let_def)

text \<open>
  C9, as amended. The toggle's \<^verbatim>\<open>tabIndex\<close> is \<^verbatim>\<open>Number(v)\<close> of the constructor's argument
  whenever that is not \<^verbatim>\<open>NaN\<close>, that is, when it is a truthy number or 0 (so \<^verbatim>\<open>'0'\<close> gives
  0), and \<^verbatim>\<open>null\<close> when it is \<^verbatim>\<open>NaN\<close> (a non-numeric string, or \<^verbatim>\<open>undefined\<close>). A missing
  attribute arrives as \<^verbatim>\<open>null\<close>, which converts to 0, so it gives 0.
\<close>

theorem toggle_tabIndex:
  "tabIndex (new_MatTimepickerToggle StringToNumber v) =
     (if Number StringToNumber v = NaN then None else Some (Number StringToNumber v)) \<and>
   (number_truthy (Number StringToNumber v) \<or> Number StringToNumber v = Finite 0
      \<longleftrightarrow> Number StringToNumber v \<noteq> NaN) \<and>
   Number StringToNumber (AttrString str) = StringToNumber str \<and>
   (StringToNumber ''0'' = Finite 0 \<longrightarrow>
      tabIndex (new_MatTimepickerToggle StringToNumber (AttrString ''0'')) = Some (Finite 0)) \<and>
   (StringToNumber str = NaN \<longrightarrow>
      tabIndex (new_MatTimepickerToggle StringToNumber (AttrString str)) = None) \<and>
   tabIndex (new_MatTimepickerToggle StringToNumber AttrUndefined) = None \<and>
   tabIndex (new_MatTimepickerToggle StringToNumber AttrNull) = Some (Finite 0)"
  by (auto simp: new_MatTimepickerToggle_def Number_def number_truthy_def Let_def)

theorem toggle_tabIndex_witness:
  "decimal_StringToNumber ''0'' = Finite 0 \<and>
   tabIndex (new_MatTimepickerToggle decimal_StringToNumber (AttrString ''0'')) = Some (Finite 0) \<and>
   decimal_StringToNumber ''abc'' = NaN \<and>
   tabIndex (new_MatTimepickerToggle decimal_StringToNumber (AttrString ''abc'')) = None \<and>
   tabIndex (new_MatTimepickerToggle decimal_StringToNumber (AttrString ''5'')) = Some (Finite 5)"
proof -
  have z: "decimal_StringToNumber ''0'' = Finite 0"
    by (simp add: decimal_StringToNumber_def)
  have n: "decimal_StringToNumber ''abc'' = NaN"
    by (simp add: decimal_StringToNumber_def)
  have f: "decimal_StringToNumber ''5'' = Finite 5"
    by (simp add: decimal_StringToNumber_def)
  show ?thesis
    using toggle_tabIndex [of decimal_StringToNumber "AttrString ''0''" "''abc''"]
      toggle_tabIndex [of decimal_StringToNumber "AttrString ''5''" "''abc''"] z n f
    by (simp add: Number_def)
qed

text \<open>
  The claim as stated fails for a missing attribute: the argument is \<^verbatim>\<open>null\<close>, and the
  resulting \<^verbatim>\<open>tabIndex\<close> is 0, not \<^verbatim>\<open>null\<close>.
\<close>

theorem toggle_tabIndex_counterexample:
  "tabIndex (new_MatTimepickerToggle decimal_StringToNumber AttrNull) = Some (Finite 0) \<and>
   tabIndex (new_MatTimepickerToggle decimal_StringToNumber AttrNull) \<noteq> None"
  by (simp add: new_MatTimepickerToggle_def Number_def number_truthy_def)

text \<open>
  C6. The claim is that a timepicker has at most one overlay open at any time. The code
  breaks it. Take an opened picker whose \<^verbatim>\<open>closed\<close> output has a listener that calls
  \<^verbatim>\<open>open()\<close>, and call \<^verbatim>\<open>ngOnDestroy()\<close>. \<^verbatim>\<open>_destroyOverlay()\<close> disposes overlay 0, whose
  detachment reaches \<^verbatim>\<open>close()\<close>; the emission runs the listener, which creates overlay 1;
  back in \<^verbatim>\<open>_destroyOverlay()\<close> the reference to overlay 1 is overwritten with \<^verbatim>\<open>null\<close>, so
  overlay 1 is never disposed. The \<^verbatim>\<open>close()\<close> that follows emits again and the listener
  creates overlay 2. Overlays 1 and 2 are both open.
\<close>

theorem two_overlays_after_destroy:
  "opened opened_picker \<and>
   timepickerInput opened_picker = Some example_input \<and>
   live_overlays opened_picker = [0] \<and>
   live_overlays (destroyOverlay_h reopen_listener opened_picker) = [1] \<and>
   priv_overlayRef (destroyOverlay_h reopen_listener opened_picker) = None \<and>
   live_overlays (ngOnDestroy_h reopen_listener opened_picker) = [1, 2] \<and>
   \<not> length (live_overlays (ngOnDestroy_h reopen_listener opened_picker)) \<le> 1"
proof -
  have a: "map disposed (overlays opened_picker) = [False]"
    by (simp add: opened_picker_def fresh_picker_def new_MatTimepickerBase_def registerInput_def
        open_def disabled_def openOverlay_def destroyOverlay_def Let_def openAs_def
        getDropdownStrategy_def)
  have b: "live_overlays opened_picker = [0]"
    by (simp add: live_overlays_flags a live_flags_def)
  have c: "live_overlays (destroyOverlay_h reopen_listener opened_picker) = [1]"
    by (simp add: live_overlays_flags destroyed_with_listener_fields live_flags_def)
  have d: "live_overlays (ngOnDestroy_h reopen_listener opened_picker) = [1, 2]"
    by (simp add: live_overlays_flags ngOnDestroy_with_listener_fields live_flags_def upt_rec)
  show ?thesis
    using b c d by (simp add: opened_def opened_picker_fields destroyed_with_listener_fields)
qed

end
